theory Spec2Isabelle
  imports Main "HOL-Library.Sublist" "HOL-Library.AList"
begin

section \<open>Message scheduling plugin: content markup, job queue and command handler\<close>

text \<open>
  A shallow embedding of \<^verbatim>\<open>src/__init__.py\<close>. Strings are lists of ASCII characters.
  The queue file is modelled by what \<^verbatim>\<open>json.load\<close> returns for it, so writing a value
  with \<^verbatim>\<open>json.dump\<close> and reading it back is the identity. Calls to the plugin's
  logger leave no trace in the model. Replies to the issuing chat
  (\<^verbatim>\<open>message_handler.send\<close>, \<^verbatim>\<open>message_handler.finish\<close>) are taken to succeed.
\<close>

subsection \<open>Content markup (\<^verbatim>\<open>parse_content_to_message\<close>)\<close>

datatype segment = Text string | AtAll | Image string | Foreign string

text \<open>\<^verbatim>\<open>content.replace("\\n", "\n")\<close>: every backslash followed by \<^verbatim>\<open>n\<close>, scanned from
  the left without overlap, becomes the line feed character.\<close>

fun replace_nl :: "string \<Rightarrow> string" where
  "replace_nl (a # b # cs) =
     (if a = CHR 0x5C \<and> b = CHR ''n'' then CHR 0x0A # replace_nl cs
      else a # replace_nl (b # cs))"
| "replace_nl cs = cs"

definition at_all_tag :: string where
  "at_all_tag = ''{at_all}''"

definition image_open :: string where
  "image_open = ''{:Image(url='' @ [CHR 0x22]"

definition image_close :: string where
  "image_close = [CHR 0x22] @ '')}''"

text \<open>The lazy group \<^verbatim>\<open>(.*?)\<close> followed by the closing \<^verbatim>\<open>")}\<close>: the shortest run of
  characters other than line feed (the pattern is compiled without DOTALL) after which
  the closing text stands.\<close>

fun scan_url :: "string \<Rightarrow> string option" where
  "scan_url [] = None"
| "scan_url (c # cs) =
     (if prefix image_close (c # cs) then Some []
      else if c = CHR 0x0A then None
      else map_option ((#) c) (scan_url cs))"

text \<open>\<^verbatim>\<open>re.match(image_url_regex, part)\<close> and its group 1.\<close>

definition image_url :: "string \<Rightarrow> string option" where
  "image_url part =
     (if prefix image_open part then scan_url (drop (length image_open) part) else None)"

text \<open>\<^verbatim>\<open>tag_regex\<close> matched at the head of a string: the at-all alternative first, then the
  image alternative; the result is the matched text.\<close>

definition match_tag :: "string \<Rightarrow> string option" where
  "match_tag s =
     (if prefix at_all_tag s then Some at_all_tag
      else case image_url s of
             Some url \<Rightarrow> Some (image_open @ url @ image_close)
           | None \<Rightarrow> None)"

text \<open>\<^verbatim>\<open>re.split(tag_regex, content)\<close> with its capturing group: the texts between the
  matches, found from the left, with each matched tag kept between them.\<close>

function split_tags :: "string \<Rightarrow> string \<Rightarrow> string list" where
  "split_tags acc [] = [acc]"
| "split_tags acc (c # cs) =
     (case match_tag (c # cs) of
        Some t \<Rightarrow> acc # t # split_tags [] (drop (length t) (c # cs))
      | None \<Rightarrow> split_tags (acc @ [c]) cs)"
  by pat_completeness auto
termination
  by (relation "measure (\<lambda>(acc, s). length s)")
     (auto simp: match_tag_def at_all_tag_def image_open_def image_close_def
           split: if_splits option.splits)

text \<open>The loop over the parts.\<close>

primrec build_message :: "string list \<Rightarrow> segment list" where
  "build_message [] = []"
| "build_message (part # parts) =
     (if part = [] then build_message parts
      else if part = at_all_tag then AtAll # build_message parts
      else case image_url part of
             Some url \<Rightarrow> Image url # build_message parts
           | None \<Rightarrow> Text part # build_message parts)"

definition parse_content_to_message :: "string \<Rightarrow> segment list" where
  "parse_content_to_message content = build_message (split_tags [] (replace_nl content))"

text \<open>A tag occurs in a string when \<^verbatim>\<open>tag_regex\<close> matches at one of its positions.\<close>

fun has_tag :: "string \<Rightarrow> bool" where
  "has_tag [] = False"
| "has_tag (c # cs) = (match_tag (c # cs) \<noteq> None \<or> has_tag cs)"

subsection \<open>The queue file (\<^verbatim>\<open>save_to_queue\<close>, \<^verbatim>\<open>remove_from_queue\<close>)\<close>

text \<open>Values as \<^verbatim>\<open>json.load\<close> returns them (floats are left out). An object is a
  Python \<^verbatim>\<open>dict\<close>: an association list in insertion order.\<close>

datatype json =
    JNull
  | JBool bool
  | JInt int
  | JStr string
  | JArr "json list"
  | JObj "(string \<times> json) list"

text \<open>The file itself: absent, present with text that makes \<^verbatim>\<open>json.load\<close> raise
  \<^verbatim>\<open>JSONDecodeError\<close>, or present with text that decodes.\<close>

datatype file_state = Missing | Undecodable | Decoded json

text \<open>The read that \<^verbatim>\<open>on_startup\<close> and \<^verbatim>\<open>save_to_queue\<close> share: the decoded object,
  and the empty dictionary when the file is absent, does not decode, or decodes to anything
  that is not a \<^verbatim>\<open>dict\<close>.\<close>

fun load_queue :: "file_state \<Rightarrow> (string \<times> json) list" where
  "load_queue (Decoded (JObj queue)) = queue"
| "load_queue _ = []"

definition save_to_queue :: "string \<Rightarrow> json \<Rightarrow> file_state \<Rightarrow> file_state" where
  "save_to_queue job_id task_info f =
     Decoded (JObj (AList.update job_id task_info (load_queue f)))"

fun remove_from_queue :: "string \<Rightarrow> file_state \<Rightarrow> file_state" where
  "remove_from_queue job_id (Decoded (JObj queue)) =
     (if job_id \<in> fst ` set queue then Decoded (JObj (AList.delete job_id queue))
      else Decoded (JObj queue))"
| "remove_from_queue job_id f = f"

text \<open>The record that the scheduling commands hand to \<^verbatim>\<open>save_to_queue\<close>.\<close>

definition task_info :: "string \<Rightarrow> string \<Rightarrow> string \<Rightarrow> int \<Rightarrow> json" where
  "task_info ts ty content target_group =
     JObj [(''timestamp'', JStr ts), (''type'', JStr ty), (''content'', JStr content),
           (''target_group'', JInt target_group)]"

subsection \<open>Strings, numbers and dates\<close>

definition is_digit :: "char \<Rightarrow> bool" where
  "is_digit c = (48 \<le> (of_char c :: nat) \<and> (of_char c :: nat) \<le> 57)"

text \<open>\<^verbatim>\<open>str.isdigit\<close>: false on the empty string.\<close>

definition isdigit :: "string \<Rightarrow> bool" where
  "isdigit s = (s \<noteq> [] \<and> list_all is_digit s)"

definition digit_val :: "char \<Rightarrow> nat" where
  "digit_val c = of_char c - 48"

text \<open>\<^verbatim>\<open>int(s)\<close> on a string of digits.\<close>

definition int_of_digits :: "string \<Rightarrow> nat" where
  "int_of_digits s = foldl (\<lambda>n c. 10 * n + digit_val c) 0 s"

fun show_nat :: "nat \<Rightarrow> string" where
  "show_nat n =
     (if n < 10 then [char_of (48 + n)]
      else show_nat (n div 10) @ [char_of (48 + n mod 10)])"

declare show_nat.simps [simp del]

definition show_int :: "int \<Rightarrow> string" where
  "show_int i = (if i < 0 then CHR ''-'' # show_nat (nat (- i)) else show_nat (nat i))"

definition pad :: "nat \<Rightarrow> nat \<Rightarrow> string" where
  "pad width n = replicate (width - length (show_nat n)) CHR ''0'' @ show_nat n"

definition is_space :: "char \<Rightarrow> bool" where
  "is_space c = ((of_char c :: nat) \<in> {9, 10, 11, 12, 13, 28, 29, 30, 31, 32})"

definition strip :: "string \<Rightarrow> string" where
  "strip s = rev (dropWhile is_space (rev (dropWhile is_space s)))"

definition lower :: "string \<Rightarrow> string" where
  "lower s =
     map (\<lambda>c. if 65 \<le> (of_char c :: nat) \<and> (of_char c :: nat) \<le> 90
              then char_of ((of_char c :: nat) + 32) else c) s"

text \<open>A naive \<^verbatim>\<open>datetime\<close>.\<close>

record datetime =
  year :: nat
  month :: nat
  day :: nat
  hour :: nat
  minute :: nat
  second :: nat
  microsecond :: nat

fun lex_less :: "nat list \<Rightarrow> nat list \<Rightarrow> bool" where
  "lex_less (x # xs) (y # ys) = (x < y \<or> (x = y \<and> lex_less xs ys))"
| "lex_less _ _ = False"

definition dt_fields :: "datetime \<Rightarrow> nat list" where
  "dt_fields d = [year d, month d, day d, hour d, minute d, second d, microsecond d]"

text \<open>\<^verbatim>\<open>a > b\<close> on naive datetimes.\<close>

definition dt_after :: "datetime \<Rightarrow> datetime \<Rightarrow> bool" where
  "dt_after a b = lex_less (dt_fields b) (dt_fields a)"

definition leap_year :: "nat \<Rightarrow> bool" where
  "leap_year y = (y mod 4 = 0 \<and> (y mod 400 = 0 \<or> y mod 100 \<noteq> 0))"

definition days_in_month :: "nat \<Rightarrow> nat \<Rightarrow> nat" where
  "days_in_month y m =
     (if m = 2 then (if leap_year y then 29 else 28)
      else if m = 4 \<or> m = 6 \<or> m = 9 \<or> m = 11 then 30 else 31)"

datatype exn =
    ValueError
  | KeyError
  | TypeError
  | AttributeError
  | ConflictingIdError
  | JobLookupError
  | ActionFailed string

datatype time_format = YmdHM | YmdHMS

definition num_field :: "string \<Rightarrow> nat option" where
  "num_field s = (if list_all is_digit s then Some (int_of_digits s) else None)"

text \<open>The day directive also accepts a space followed by a digit from 1 to 9.\<close>

definition day_field :: "string \<Rightarrow> nat option" where
  "day_field s =
     (case s of
        [a, b] \<Rightarrow>
          if is_digit a \<and> is_digit b then Some (int_of_digits [a, b])
          else if a = CHR '' '' \<and> is_digit b \<and> b \<noteq> CHR ''0'' then Some (digit_val b)
          else None
      | _ \<Rightarrow> None)"

text \<open>\<^verbatim>\<open>datetime.strptime(s, "%Y%m%d%H%M")\<close> and \<^verbatim>\<open>datetime.strptime(s, "%Y%m%d%H%M%S")\<close>
  on a string of the full length of the format, 12 or 14, which is how the plugin calls
  them: every directive then takes its full width, and the fields must form a date and a
  time of day. The plugin never calls them on a string of another length; the model
  answers \<^verbatim>\<open>ValueError\<close> there.\<close>

definition strptime :: "string \<Rightarrow> time_format \<Rightarrow> exn + datetime" where
  "strptime s f =
     (if length s \<noteq> (case f of YmdHM \<Rightarrow> 12 | YmdHMS \<Rightarrow> 14) then Inl ValueError
      else case (num_field (take 4 s), num_field (take 2 (drop 4 s)),
                 day_field (take 2 (drop 6 s)), num_field (take 2 (drop 8 s)),
                 num_field (take 2 (drop 10 s)),
                 (case f of YmdHM \<Rightarrow> Some 0 | YmdHMS \<Rightarrow> num_field (take 2 (drop 12 s)))) of
             (Some y, Some mo, Some d, Some h, Some mi, Some sec) \<Rightarrow>
               if 1 \<le> y \<and> 1 \<le> mo \<and> mo \<le> 12 \<and> 1 \<le> d \<and> d \<le> days_in_month y mo
                  \<and> h \<le> 23 \<and> mi \<le> 59 \<and> sec \<le> 59
               then Inr \<lparr>year = y, month = mo, day = d, hour = h, minute = mi,
                         second = sec, microsecond = 0\<rparr>
               else Inl ValueError
           | _ \<Rightarrow> Inl ValueError)"

text \<open>\<^verbatim>\<open>send_time.isoformat()\<close>.\<close>

definition isoformat :: "datetime \<Rightarrow> string" where
  "isoformat d =
     pad 4 (year d) @ ''-'' @ pad 2 (month d) @ ''-'' @ pad 2 (day d) @ ''T''
     @ pad 2 (hour d) @ '':'' @ pad 2 (minute d) @ '':'' @ pad 2 (second d)
     @ (if microsecond d = 0 then [] else ''.'' @ pad 6 (microsecond d))"

subsection \<open>The world the plugin acts on\<close>

text \<open>What the bot sends to a group: a \<^verbatim>\<open>Message\<close>, or a plain string.\<close>

datatype outgoing = Content "segment list" | Notice string

text \<open>The replies of \<^verbatim>\<open>handle_message\<close> to the issuing chat, one constructor for each
  text in the source, with the values it interpolates.\<close>

datatype kind = SendMessage | ForwardMessage

datatype reply_text =
    NotAuthorized
  | Help
  | InvalidTargetGroup
  | NotInReceiverGroups int
  | MessageSent kind int int
  | FailedToSend kind exn
  | Scheduled kind datetime int string
  | InvalidTimestampFormat
  | FailedToSchedule kind exn
  | ForwardNeedsReply
  | Recalled int
  | InvalidMessageID
  | FailedToRecall exn
  | QueueEmpty
  | CouldNotReadQueue
  | InvalidRegex
  | NoMatchingTasks
  | ScheduledTasks "(string \<times> datetime \<times> json \<times> string) list"
  | CancelNeedsMinusOne
  | JobCanceled string
  | FailedToCancel string exn

text \<open>The calls the plugin makes, in the order it makes them.\<close>

datatype effect =
    Reply reply_text
  | SendGroupMsg int outgoing
  | DeleteMsg int
  | AddJob string
  | RemoveJob string
  | SaveToQueue string
  | RemoveFromQueue string

text \<open>A job of the scheduler: its run date and the arguments of the callback
  \<^verbatim>\<open>execute_scheduled_task\<close>.\<close>

record registration =
  run_date :: datetime
  args :: "json list"

record world =
  queue_file :: file_state
  scheduler :: "string \<rightharpoonup> registration"
  trace :: "effect list"

text \<open>What the plugin reads and calls but does not define: the configuration lists, whether
  a bot is connected, the clock, the transport (a message id, or the exception it raises),
  the adapter's conversions between \<^verbatim>\<open>Message\<close> and \<^verbatim>\<open>str\<close>,
  \<^verbatim>\<open>datetime.fromisoformat\<close>, the text that formats \<^verbatim>\<open>send_time.timestamp()\<close> (or the
  exception of that call, which depends on the local time zone: it raises
  \<^verbatim>\<open>ValueError\<close> at the first day of year 1) and \<^verbatim>\<open>re.compile\<close> (the search
  function of the pattern, or none when it raises \<^verbatim>\<open>re.error\<close>). The clock stands
  still during one call.\<close>

record env =
  admin_groups :: "int list"
  receiver_groups :: "int list"
  admins :: "int list"
  bot_connected :: bool
  now :: datetime
  send_group_msg :: "int \<Rightarrow> outgoing \<Rightarrow> exn + int"
  delete_msg :: "int \<Rightarrow> exn option"
  message_of_str :: "string \<Rightarrow> segment list"
  str_of_message :: "segment list \<Rightarrow> string"
  fromisoformat :: "string \<Rightarrow> exn + datetime"
  epoch_text :: "datetime \<Rightarrow> exn + string"
  re_compile :: "string \<Rightarrow> (string \<Rightarrow> bool) option"

definition emit :: "effect \<Rightarrow> world \<Rightarrow> world" where
  "emit e w = w\<lparr>trace := trace w @ [e]\<rparr>"

text \<open>The effects a call added.\<close>

definition new_effects :: "world \<Rightarrow> world \<Rightarrow> effect list" where
  "new_effects w w' = drop (length (trace w)) (trace w')"

text \<open>The scheduler's \<^verbatim>\<open>add_job\<close> and \<^verbatim>\<open>remove_job\<close>: the first raises on an id that
  is registered, the second on one that is not.\<close>

definition add_job ::
  "string \<Rightarrow> registration \<Rightarrow> (string \<rightharpoonup> registration) \<Rightarrow> exn + (string \<rightharpoonup> registration)" where
  "add_job job_id r s = (if s job_id = None then Inr (s(job_id \<mapsto> r)) else Inl ConflictingIdError)"

definition remove_job ::
  "string \<Rightarrow> (string \<rightharpoonup> registration) \<Rightarrow> exn + (string \<rightharpoonup> registration)" where
  "remove_job job_id s = (if s job_id = None then Inl JobLookupError else Inr (s(job_id := None)))"

definition call_save_to_queue :: "string \<Rightarrow> json \<Rightarrow> world \<Rightarrow> world" where
  "call_save_to_queue job_id info w =
     emit (SaveToQueue job_id) (w\<lparr>queue_file := save_to_queue job_id info (queue_file w)\<rparr>)"

definition call_remove_from_queue :: "string \<Rightarrow> world \<Rightarrow> world" where
  "call_remove_from_queue job_id w =
     emit (RemoveFromQueue job_id) (w\<lparr>queue_file := remove_from_queue job_id (queue_file w)\<rparr>)"

text \<open>\<^verbatim>\<open>d[key]\<close> with a string key on a loaded value.\<close>

fun getitem :: "json \<Rightarrow> string \<Rightarrow> exn + json" where
  "getitem (JObj kvs) k = (case map_of kvs k of None \<Rightarrow> Inl KeyError | Some v \<Rightarrow> Inr v)"
| "getitem _ k = Inl TypeError"

text \<open>\<^verbatim>\<open>datetime.fromisoformat(v)\<close> on a loaded value.\<close>

fun fromiso :: "env \<Rightarrow> json \<Rightarrow> exn + datetime" where
  "fromiso env (JStr s) = fromisoformat env s"
| "fromiso env _ = Inl TypeError"

subsection \<open>Startup (\<^verbatim>\<open>on_startup\<close>)\<close>

fun startup_loop :: "env \<Rightarrow> (string \<times> json) list \<Rightarrow> world \<Rightarrow> exn option \<times> world" where
  "startup_loop env [] w = (None, w)"
| "startup_loop env ((job_id, job_info) # rest) w =
     (case getitem job_info ''timestamp'' of
        Inl e \<Rightarrow> (Some e, w)
      | Inr t \<Rightarrow>
         (case fromiso env t of
            Inl e \<Rightarrow> (Some e, w)
          | Inr timestamp \<Rightarrow>
             (if dt_after timestamp (now env) then
                (case getitem job_info ''type'' of
                   Inl e \<Rightarrow> (Some e, w)
                 | Inr ty \<Rightarrow>
                    (case getitem job_info ''content'' of
                       Inl e \<Rightarrow> (Some e, w)
                     | Inr c \<Rightarrow>
                        (case getitem job_info ''target_group'' of
                           Inl e \<Rightarrow> (Some e, w)
                         | Inr g \<Rightarrow>
                            (case add_job job_id
                                    \<lparr>run_date = timestamp, args = [ty, c, g, JStr job_id]\<rparr>
                                    (scheduler w) of
                               Inl e \<Rightarrow> (Some e, emit (AddJob job_id) w)
                             | Inr s \<Rightarrow>
                                 startup_loop env rest
                                   (emit (AddJob job_id) (w\<lparr>scheduler := s\<rparr>))))))
              else startup_loop env rest w)))"

text \<open>The first component is the exception that leaves \<^verbatim>\<open>on_startup\<close>, if any: only
  \<^verbatim>\<open>JSONDecodeError\<close> is caught.\<close>

definition on_startup :: "env \<Rightarrow> world \<Rightarrow> exn option \<times> world" where
  "on_startup env w =
     (case queue_file w of
        Missing \<Rightarrow> (None, w)
      | Undecodable \<Rightarrow> (None, w)
      | Decoded j \<Rightarrow> startup_loop env (case j of JObj queue \<Rightarrow> queue | _ \<Rightarrow> []) w)"

subsection \<open>Execution of a due job (\<^verbatim>\<open>execute_scheduled_task\<close>)\<close>

definition confirmation_message :: "int \<Rightarrow> int \<Rightarrow> string" where
  "confirmation_message target_group message_id =
     ''Scheduled message sent to group '' @ show_int target_group @ ''.'' @ [CHR 0x0A]
     @ ''MessageID: '' @ show_int message_id"

text \<open>The confirmations to the admin groups: each send stands in its own \<^verbatim>\<open>try\<close>, and a
  failure is only logged.\<close>

fun notify_admins :: "int list \<Rightarrow> outgoing \<Rightarrow> world \<Rightarrow> world" where
  "notify_admins [] m w = w"
| "notify_admins (admin_group # rest) m w =
     notify_admins rest m (emit (SendGroupMsg admin_group m) w)"

definition message_to_send :: "env \<Rightarrow> string \<Rightarrow> string \<Rightarrow> segment list option" where
  "message_to_send env command_type content =
     (if command_type = ''sendmessage'' then Some (parse_content_to_message content)
      else if command_type = ''forwardmessage'' then Some (message_of_str env content)
      else None)"

definition execute_scheduled_task ::
  "env \<Rightarrow> string \<Rightarrow> string \<Rightarrow> int \<Rightarrow> string \<Rightarrow> world \<Rightarrow> world" where
  "execute_scheduled_task env command_type content target_group job_id w =
     (if \<not> bot_connected env then w
      else (case message_to_send env command_type content of
              None \<Rightarrow> call_remove_from_queue job_id w
            | Some m \<Rightarrow>
               (if m = [] then call_remove_from_queue job_id w
                else (case send_group_msg env target_group (Content m) of
                        Inl e \<Rightarrow> emit (SendGroupMsg target_group (Content m)) w
                      | Inr message_id \<Rightarrow>
                          call_remove_from_queue job_id
                            (notify_admins (admin_groups env)
                               (Notice (confirmation_message target_group message_id))
                               (emit (SendGroupMsg target_group (Content m)) w))))))"

subsection \<open>The command handler (\<^verbatim>\<open>handle_message\<close>)\<close>

text \<open>The inbound event: where it came from, its plain text, and the message it replies
  to (its id and its content), if any.\<close>

record group_message_event =
  group_id :: int
  user_id :: int
  plaintext :: string
  reply :: "(int \<times> segment list) option"

definition is_admin :: "env \<Rightarrow> int \<Rightarrow> bool" where
  "is_admin env uid = (admins env = [] \<or> uid \<in> set (admins env))"

text \<open>The command pattern, four bracketed lazy groups matched at the head of the text
  with DOTALL: each of the first three groups ends at the first \<^verbatim>\<open>][\<close> that follows, the
  fourth at the first \<^verbatim>\<open>]\<close>.\<close>

fun until_close_open :: "string \<Rightarrow> (string \<times> string) option" where
  "until_close_open [] = None"
| "until_close_open (c # cs) =
     (if prefix '']['' (c # cs) then Some ([], drop 2 (c # cs))
      else map_option (\<lambda>(g, r). (c # g, r)) (until_close_open cs))"

fun until_close :: "string \<Rightarrow> string option" where
  "until_close [] = None"
| "until_close (c # cs) =
     (if c = CHR '']'' then Some [] else map_option ((#) c) (until_close cs))"

definition match_command :: "string \<Rightarrow> (string \<times> string \<times> string \<times> string) option" where
  "match_command s =
     (case s of
        [] \<Rightarrow> None
      | c # r0 \<Rightarrow>
         (if c \<noteq> CHR ''['' then None
          else (case until_close_open r0 of
                  None \<Rightarrow> None
                | Some (g1, r1) \<Rightarrow>
                   (case until_close_open r1 of
                      None \<Rightarrow> None
                    | Some (g2, r2) \<Rightarrow>
                       (case until_close_open r2 of
                          None \<Rightarrow> None
                        | Some (g3, r3) \<Rightarrow>
                           (case until_close r3 of
                              None \<Rightarrow> None
                            | Some g4 \<Rightarrow> Some (g1, g2, g3, g4)))))))"

text \<open>How a stage of the handler ends: an exception that nothing catches, a return
  (after a reply, or silently), or a value for the next stage.\<close>

datatype 'a step = Raise exn | Stop "reply_text option" | Next 'a

definition say :: "reply_text \<Rightarrow> world \<Rightarrow> world" where
  "say r w = emit (Reply r) w"

text \<open>The checks before the command delegation: the admin group, the admin list, the
  help shortcut, the command pattern, the target group and the receiver list. They pass
  on the command type, the timestamp field, the content, the target group field and the
  target group number.\<close>

definition command_checks ::
  "env \<Rightarrow> group_message_event \<Rightarrow> (string \<times> string \<times> string \<times> string \<times> int) step" where
  "command_checks env event =
     (if group_id event \<notin> set (admin_groups env) then Stop None
      else if \<not> is_admin env (user_id event) then Stop (Some NotAuthorized)
      else if lower (strip (plaintext event)) = ''message'' then Stop (Some Help)
      else (case match_command (strip (plaintext event)) of
              None \<Rightarrow> Stop None
            | Some (g1, g2, g3, g4) \<Rightarrow>
               (let command_type = strip g1; timestamp_str = strip g2;
                    content = strip g3; target_group_str = strip g4
                in if \<not> isdigit target_group_str \<and> command_type \<noteq> ''schedulemessage''
                   then Stop (Some InvalidTargetGroup)
                   else (let target_group =
                               (if isdigit target_group_str
                                then int (int_of_digits target_group_str) else 0)
                         in if target_group \<noteq> 0 \<and> target_group \<notin> set (receiver_groups env)
                            then Stop (Some (NotInReceiverGroups target_group))
                            else Next (command_type, timestamp_str, content,
                                       target_group_str, target_group)))))"

text \<open>The immediate send of \<^verbatim>\<open>sendmessage\<close> and \<^verbatim>\<open>forwardmessage\<close>.\<close>

definition send_now :: "env \<Rightarrow> kind \<Rightarrow> segment list \<Rightarrow> int \<Rightarrow> world \<Rightarrow> world" where
  "send_now env k m target_group w =
     (case send_group_msg env target_group (Content m) of
        Inl e \<Rightarrow> say (FailedToSend k e) (emit (SendGroupMsg target_group (Content m)) w)
      | Inr message_id \<Rightarrow>
          say (MessageSent k target_group message_id)
            (emit (SendGroupMsg target_group (Content m)) w))"

text \<open>The scheduled send. The two commands run the same text up to the prefix of the
  job id, the type written to the record and the wording of the replies.\<close>

definition parse_timestamp :: "string \<Rightarrow> exn + datetime" where
  "parse_timestamp timestamp_str =
     (if length timestamp_str = 14 then strptime timestamp_str YmdHMS
      else if length timestamp_str = 12 then strptime timestamp_str YmdHM
      else Inl ValueError)"

definition type_tag :: "kind \<Rightarrow> string" where
  "type_tag k = (case k of SendMessage \<Rightarrow> ''sendmessage'' | ForwardMessage \<Rightarrow> ''forwardmessage'')"

text \<open>The job id, \<^verbatim>\<open>f"job_{send_time.timestamp()}_{target_group}"\<close>; it raises what
  \<^verbatim>\<open>send_time.timestamp()\<close> raises.\<close>

definition job_id_of :: "env \<Rightarrow> kind \<Rightarrow> datetime \<Rightarrow> int \<Rightarrow> exn + string" where
  "job_id_of env k send_time target_group =
     (case epoch_text env send_time of
        Inl e \<Rightarrow> Inl e
      | Inr stamp \<Rightarrow>
          Inr ((case k of SendMessage \<Rightarrow> ''job_'' | ForwardMessage \<Rightarrow> ''job_forward_'')
               @ stamp @ ''_'' @ show_int target_group))"

text \<open>The two handlers of the \<^verbatim>\<open>try\<close>: \<^verbatim>\<open>except ValueError\<close>, then
  \<^verbatim>\<open>except Exception\<close>.\<close>

definition schedule_failed :: "kind \<Rightarrow> exn \<Rightarrow> reply_text" where
  "schedule_failed k e = (if e = ValueError then InvalidTimestampFormat else FailedToSchedule k e)"

text \<open>The body of the \<^verbatim>\<open>try\<close> after the timestamp is parsed: the job id, the
  registration, the record in the file, the reply.\<close>

definition schedule_at :: "env \<Rightarrow> kind \<Rightarrow> datetime \<Rightarrow> string \<Rightarrow> int \<Rightarrow> world \<Rightarrow> world" where
  "schedule_at env k send_time content target_group w =
     (case job_id_of env k send_time target_group of
        Inl e \<Rightarrow> say (schedule_failed k e) w
      | Inr job_id \<Rightarrow>
         (case add_job job_id
                 \<lparr>run_date = send_time,
                  args = [JStr (type_tag k), JStr content, JInt target_group, JStr job_id]\<rparr>
                 (scheduler w) of
            Inl e \<Rightarrow> say (schedule_failed k e) (emit (AddJob job_id) w)
          | Inr s \<Rightarrow>
              say (Scheduled k send_time target_group job_id)
                (call_save_to_queue job_id
                   (task_info (isoformat send_time) (type_tag k) content target_group)
                   (emit (AddJob job_id) (w\<lparr>scheduler := s\<rparr>)))))"

definition schedule_command ::
  "env \<Rightarrow> kind \<Rightarrow> string \<Rightarrow> string \<Rightarrow> int \<Rightarrow> world \<Rightarrow> world" where
  "schedule_command env k timestamp_str content target_group w =
     (case parse_timestamp timestamp_str of
        Inl e \<Rightarrow> say (schedule_failed k e) w
      | Inr send_time \<Rightarrow> schedule_at env k send_time content target_group w)"

definition handle_sendmessage :: "env \<Rightarrow> string \<Rightarrow> string \<Rightarrow> int \<Rightarrow> world \<Rightarrow> world" where
  "handle_sendmessage env timestamp_str content target_group w =
     (if timestamp_str = ''0''
      then send_now env SendMessage (parse_content_to_message content) target_group w
      else if isdigit timestamp_str
      then schedule_command env SendMessage timestamp_str content target_group w
      else w)"

definition handle_forwardmessage ::
  "env \<Rightarrow> group_message_event \<Rightarrow> string \<Rightarrow> int \<Rightarrow> world \<Rightarrow> world" where
  "handle_forwardmessage env event timestamp_str target_group w =
     (case reply event of
        None \<Rightarrow> say ForwardNeedsReply w
      | Some (replied_id, forward_message) \<Rightarrow>
         (if timestamp_str = ''0''
          then send_now env ForwardMessage forward_message target_group w
          else if isdigit timestamp_str
          then schedule_command env ForwardMessage timestamp_str
                 (str_of_message env forward_message) target_group w
          else w))"

text \<open>\<^verbatim>\<open>recallmessage\<close>: the replied-to message first, the content field as a message id
  when there is no reply or its recall raised.\<close>

definition recall_by_content :: "env \<Rightarrow> string \<Rightarrow> world \<Rightarrow> world" where
  "recall_by_content env content w =
     (if \<not> isdigit content then say InvalidMessageID w
      else (case delete_msg env (int (int_of_digits content)) of
              None \<Rightarrow>
                say (Recalled (int (int_of_digits content)))
                  (emit (DeleteMsg (int (int_of_digits content))) w)
            | Some e \<Rightarrow>
                say (FailedToRecall e) (emit (DeleteMsg (int (int_of_digits content))) w)))"

definition handle_recallmessage :: "env \<Rightarrow> group_message_event \<Rightarrow> string \<Rightarrow> world \<Rightarrow> world" where
  "handle_recallmessage env event content w =
     (case reply event of
        None \<Rightarrow> recall_by_content env content w
      | Some (recalled_msg_id, replied) \<Rightarrow>
         (case delete_msg env recalled_msg_id of
            None \<Rightarrow> say (Recalled recalled_msg_id) (emit (DeleteMsg recalled_msg_id) w)
          | Some e \<Rightarrow> recall_by_content env content (emit (DeleteMsg recalled_msg_id) w)))"

text \<open>\<^verbatim>\<open>cancelmessage\<close>: both removals stand in one \<^verbatim>\<open>try\<close>, the scheduler's first.\<close>

definition handle_cancelmessage :: "string \<Rightarrow> string \<Rightarrow> world \<Rightarrow> world" where
  "handle_cancelmessage timestamp_str content w =
     (if timestamp_str \<noteq> ''-1'' then say CancelNeedsMinusOne w
      else (case remove_job content (scheduler w) of
              Inl e \<Rightarrow> say (FailedToCancel content e) (emit (RemoveJob content) w)
            | Inr s \<Rightarrow>
                say (JobCanceled content)
                  (call_remove_from_queue content
                     (emit (RemoveJob content) (w\<lparr>scheduler := s\<rparr>)))))"

text \<open>\<^verbatim>\<open>schedulemessage\<close>. The handler reads the file itself and works on whatever value
  it decodes to.\<close>

fun truthy :: "json \<Rightarrow> bool" where
  "truthy JNull = False"
| "truthy (JBool b) = b"
| "truthy (JInt i) = (i \<noteq> 0)"
| "truthy (JStr s) = (s \<noteq> [])"
| "truthy (JArr xs) = (xs \<noteq> [])"
| "truthy (JObj kvs) = (kvs \<noteq> [])"

fun copy_of :: "json \<Rightarrow> exn + json" where
  "copy_of (JObj kvs) = Inr (JObj kvs)"
| "copy_of (JArr xs) = Inr (JArr xs)"
| "copy_of _ = Inl AttributeError"

fun items :: "json \<Rightarrow> exn + (string \<times> json) list" where
  "items (JObj kvs) = Inr kvs"
| "items _ = Inl AttributeError"

text \<open>A dictionary comprehension with a condition that may raise.\<close>

fun filter_items ::
  "(json \<Rightarrow> exn + bool) \<Rightarrow> (string \<times> json) list \<Rightarrow> exn + (string \<times> json) list" where
  "filter_items p [] = Inr []"
| "filter_items p ((k, v) # kvs) =
     (case p v of
        Inl e \<Rightarrow> Inl e
      | Inr b \<Rightarrow>
         (case filter_items p kvs of
            Inl e \<Rightarrow> Inl e
          | Inr kept \<Rightarrow> Inr (if b then (k, v) # kept else kept)))"

definition same_time :: "env \<Rightarrow> datetime \<Rightarrow> json \<Rightarrow> exn + bool" where
  "same_time env filter_time info =
     (case getitem info ''timestamp'' of
        Inl e \<Rightarrow> Inl e
      | Inr t \<Rightarrow> (case fromiso env t of Inl e \<Rightarrow> Inl e | Inr d \<Rightarrow> Inr (d = filter_time)))"

definition filter_time_of :: "string \<Rightarrow> exn + datetime option" where
  "filter_time_of timestamp_str =
     (if length timestamp_str = 14 then map_sum id Some (strptime timestamp_str YmdHMS)
      else if length timestamp_str = 12 then map_sum id Some (strptime timestamp_str YmdHM)
      else Inr None)"

definition filter_by_time :: "env \<Rightarrow> string \<Rightarrow> json \<Rightarrow> exn + json" where
  "filter_by_time env timestamp_str tasks =
     (if timestamp_str = [] then Inr tasks
      else (case filter_time_of timestamp_str of
              Inl e \<Rightarrow> (if e = ValueError then Inr tasks else Inl e)
            | Inr None \<Rightarrow> Inr tasks
            | Inr (Some filter_time) \<Rightarrow>
               (case items tasks of
                  Inl e \<Rightarrow> Inl e
                | Inr kvs \<Rightarrow>
                   (case filter_items (same_time env filter_time) kvs of
                      Inl e \<Rightarrow> (if e = ValueError then Inr tasks else Inl e)
                    | Inr kept \<Rightarrow> Inr (JObj kept)))))"

definition matches_content :: "(string \<Rightarrow> bool) \<Rightarrow> json \<Rightarrow> exn + bool" where
  "matches_content search info =
     (case getitem info ''content'' of
        Inl e \<Rightarrow> Inl e
      | Inr c \<Rightarrow> (case c of JStr s \<Rightarrow> Inr (search s) | _ \<Rightarrow> Inl TypeError))"

definition filter_by_content :: "env \<Rightarrow> string \<Rightarrow> json \<Rightarrow> json step" where
  "filter_by_content env content tasks =
     (if content = [] then Next tasks
      else (case re_compile env content of
              None \<Rightarrow> Stop (Some InvalidRegex)
            | Some search \<Rightarrow>
               (case items tasks of
                  Inl e \<Rightarrow> Raise e
                | Inr kvs \<Rightarrow>
                   (case filter_items (matches_content search) kvs of
                      Inl e \<Rightarrow> Raise e
                    | Inr kept \<Rightarrow> Next (JObj kept)))))"

text \<open>\<^verbatim>\<open>info["target_group"] == filter_group\<close>.\<close>

fun equals_int :: "json \<Rightarrow> int \<Rightarrow> bool" where
  "equals_int (JInt i) n = (i = n)"
| "equals_int (JBool b) n = ((if b then 1 else 0) = n)"
| "equals_int _ n = False"

definition in_group :: "int \<Rightarrow> json \<Rightarrow> exn + bool" where
  "in_group filter_group info =
     (case getitem info ''target_group'' of
        Inl e \<Rightarrow> Inl e
      | Inr g \<Rightarrow> Inr (equals_int g filter_group))"

definition filter_by_group :: "string \<Rightarrow> json \<Rightarrow> exn + json" where
  "filter_by_group target_group_str tasks =
     (if target_group_str \<noteq> [] \<and> isdigit target_group_str
      then (case items tasks of
              Inl e \<Rightarrow> Inl e
            | Inr kvs \<Rightarrow>
               (case filter_items (in_group (int (int_of_digits target_group_str))) kvs of
                  Inl e \<Rightarrow> Inl e
                | Inr kept \<Rightarrow> Inr (JObj kept)))
      else Inr tasks)"

text \<open>\<^verbatim>\<open>job_info['content'][:30].replace('`', '')\<close>. A list can be sliced and has no
  \<^verbatim>\<open>replace\<close>; every other value that is not a string raises on the slice (the class of
  that exception depends on the Python version, \<^verbatim>\<open>TypeError\<close> stands for it).\<close>

fun preview :: "json \<Rightarrow> exn + string" where
  "preview (JStr s) = Inr (filter (\<lambda>c. c \<noteq> CHR 0x60) (take 30 s))"
| "preview (JArr xs) = Inl AttributeError"
| "preview _ = Inl TypeError"

fun render_tasks ::
  "env \<Rightarrow> (string \<times> json) list \<Rightarrow> exn + (string \<times> datetime \<times> json \<times> string) list" where
  "render_tasks env [] = Inr []"
| "render_tasks env ((job_id, job_info) # rest) =
     (case getitem job_info ''timestamp'' of
        Inl e \<Rightarrow> Inl e
      | Inr t \<Rightarrow>
         (case fromiso env t of
            Inl e \<Rightarrow> Inl e
          | Inr d \<Rightarrow>
             (case getitem job_info ''target_group'' of
                Inl e \<Rightarrow> Inl e
              | Inr g \<Rightarrow>
                 (case getitem job_info ''content'' of
                    Inl e \<Rightarrow> Inl e
                  | Inr c \<Rightarrow>
                     (case preview c of
                        Inl e \<Rightarrow> Inl e
                      | Inr p \<Rightarrow>
                         (case render_tasks env rest of
                            Inl e \<Rightarrow> Inl e
                          | Inr lines \<Rightarrow> Inr ((job_id, d, g, p) # lines)))))))"

definition list_filtered :: "env \<Rightarrow> json \<Rightarrow> world \<Rightarrow> exn option \<times> world" where
  "list_filtered env filtered_tasks w =
     (if \<not> truthy filtered_tasks then (None, say NoMatchingTasks w)
      else (case items filtered_tasks of
              Inl e \<Rightarrow> (Some e, w)
            | Inr kvs \<Rightarrow>
               (case render_tasks env kvs of
                  Inl e \<Rightarrow> (Some e, w)
                | Inr lines \<Rightarrow> (None, say (ScheduledTasks lines) w))))"

definition list_queue ::
  "env \<Rightarrow> string \<Rightarrow> string \<Rightarrow> string \<Rightarrow> json \<Rightarrow> world \<Rightarrow> exn option \<times> world" where
  "list_queue env timestamp_str content target_group_str queue w =
     (case copy_of queue of
        Inl e \<Rightarrow> (Some e, w)
      | Inr copied \<Rightarrow>
         (case filter_by_time env timestamp_str copied of
            Inl e \<Rightarrow> (Some e, w)
          | Inr by_time \<Rightarrow>
             (case filter_by_content env content by_time of
                Raise e \<Rightarrow> (Some e, w)
              | Stop r \<Rightarrow> (None, (case r of None \<Rightarrow> w | Some t \<Rightarrow> say t w))
              | Next by_content \<Rightarrow>
                 (case filter_by_group target_group_str by_content of
                    Inl e \<Rightarrow> (Some e, w)
                  | Inr filtered_tasks \<Rightarrow> list_filtered env filtered_tasks w))))"

definition handle_schedulemessage ::
  "env \<Rightarrow> string \<Rightarrow> string \<Rightarrow> string \<Rightarrow> world \<Rightarrow> exn option \<times> world" where
  "handle_schedulemessage env timestamp_str content target_group_str w =
     (case queue_file w of
        Missing \<Rightarrow> (None, say QueueEmpty w)
      | Undecodable \<Rightarrow> (None, say CouldNotReadQueue w)
      | Decoded queue \<Rightarrow>
         (if \<not> truthy queue then (None, say QueueEmpty w)
          else list_queue env timestamp_str content target_group_str queue w))"

text \<open>The command delegation, and the handler. The first component of the result is the
  exception that leaves the handler, if any.\<close>

definition command_delegation ::
  "env \<Rightarrow> group_message_event \<Rightarrow> string \<Rightarrow> string \<Rightarrow> string \<Rightarrow> string \<Rightarrow> int \<Rightarrow> world
   \<Rightarrow> exn option \<times> world" where
  "command_delegation env event command_type timestamp_str content target_group_str
     target_group w =
     (if command_type = ''sendmessage''
      then (None, handle_sendmessage env timestamp_str content target_group w)
      else if command_type = ''forwardmessage''
      then (None, handle_forwardmessage env event timestamp_str target_group w)
      else if command_type = ''recallmessage''
      then (None, handle_recallmessage env event content w)
      else if command_type = ''schedulemessage''
      then handle_schedulemessage env timestamp_str content target_group_str w
      else if command_type = ''cancelmessage''
      then (None, handle_cancelmessage timestamp_str content w)
      else (None, w))"

definition handle_message :: "env \<Rightarrow> group_message_event \<Rightarrow> world \<Rightarrow> exn option \<times> world" where
  "handle_message env event w =
     (case command_checks env event of
        Raise e \<Rightarrow> (Some e, w)
      | Stop None \<Rightarrow> (None, w)
      | Stop (Some r) \<Rightarrow> (None, say r w)
      | Next (command_type, timestamp_str, content, target_group_str, target_group) \<Rightarrow>
          command_delegation env event command_type timestamp_str content target_group_str
            target_group w)"

subsection \<open>Notions used in the statements\<close>

text \<open>The delivery of a due job raised: there was a message to send and the transport
  refused it.\<close>

definition delivery_failed :: "env \<Rightarrow> string \<Rightarrow> string \<Rightarrow> int \<Rightarrow> bool" where
  "delivery_failed env command_type content target_group =
     (case message_to_send env command_type content of
        None \<Rightarrow> False
      | Some m \<Rightarrow> m \<noteq> [] \<and> isl (send_group_msg env target_group (Content m)))"

fun is_delivery :: "effect \<Rightarrow> bool" where
  "is_delivery (SendGroupMsg g (Content m)) = True"
| "is_delivery _ = False"

fun is_registration :: "effect \<Rightarrow> bool" where
  "is_registration (AddJob job_id) = True"
| "is_registration (SaveToQueue job_id) = True"
| "is_registration _ = False"

text \<open>A queue file that is absent, does not decode, or decodes to something other than
  an object.\<close>

fun unusable :: "file_state \<Rightarrow> bool" where
  "unusable (Decoded (JObj queue)) = False"
| "unusable _ = True"


text \<open>What a scheduling command leaves behind. When the job id cannot be formed (the
  call \<^verbatim>\<open>send_time.timestamp()\<close> raises): the reply of the handler that catches the
  exception and nothing else, no registration being attempted. After a registration that
  succeeded: the registration, then the record in the file, then the confirming reply.
  After a registration that raised: the failure reply and nothing else.\<close>

definition scheduled_outcome ::
  "env \<Rightarrow> kind \<Rightarrow> datetime \<Rightarrow> string \<Rightarrow> int \<Rightarrow> world \<Rightarrow> world \<Rightarrow> bool" where
  "scheduled_outcome env k send_time body target_group w w' =
     (case job_id_of env k send_time target_group of
        Inl e \<Rightarrow>
          new_effects w w' = [Reply (schedule_failed k e)]
          \<and> queue_file w' = queue_file w
          \<and> scheduler w' = scheduler w
      | Inr job_id \<Rightarrow>
         (if scheduler w job_id = None
          then new_effects w w' =
                 [AddJob job_id, SaveToQueue job_id,
                  Reply (Scheduled k send_time target_group job_id)]
               \<and> queue_file w' =
                   save_to_queue job_id
                     (task_info (isoformat send_time) (type_tag k) body target_group)
                     (queue_file w)
               \<and> scheduler w' =
                   (scheduler w)(job_id \<mapsto>
                      \<lparr>run_date = send_time,
                       args = [JStr (type_tag k), JStr body, JInt target_group,
                               JStr job_id]\<rparr>)
          else new_effects w w' = [AddJob job_id, Reply (FailedToSchedule k ConflictingIdError)]
               \<and> queue_file w' = queue_file w
               \<and> scheduler w' = scheduler w))"

subsection \<open>A concrete setting\<close>

text \<open>An environment, a world and events on which the statements are evaluated: one
  admin group, one receiver group, an open admin list, a transport that accepts every
  message, and a time zone in which \<^verbatim>\<open>timestamp()\<close> raises in year 1.\<close>

definition demo_env :: env where
  "demo_env =
     \<lparr>admin_groups = [1], receiver_groups = [123], admins = [], bot_connected = True,
      now = \<lparr>year = 2025, month = 1, day = 1, hour = 0, minute = 0, second = 0,
             microsecond = 0\<rparr>,
      send_group_msg = (\<lambda>g m. Inr 77), delete_msg = (\<lambda>i. None),
      message_of_str = (\<lambda>s. if s = [] then [] else [Text s]),
      str_of_message = (\<lambda>m. ''forwarded''),
      fromisoformat = (\<lambda>s. strptime (filter is_digit s) YmdHMS),
      epoch_text = (\<lambda>d. if year d \<le> 1 then Inl ValueError else Inr (isoformat d)),
      re_compile = (\<lambda>p. Some (\<lambda>s. True))\<rparr>"

text \<open>The same with a transport that refuses every message.\<close>

definition offline_env :: env where
  "offline_env = demo_env\<lparr>send_group_msg := (\<lambda>g m. Inl (ActionFailed ''offline''))\<rparr>"

definition demo_world :: "file_state \<Rightarrow> world" where
  "demo_world f = \<lparr>queue_file = f, scheduler = Map.empty, trace = []\<rparr>"

definition demo_event :: "string \<Rightarrow> (int \<times> segment list) option \<Rightarrow> group_message_event" where
  "demo_event s r = \<lparr>group_id = 1, user_id = 5, plaintext = s, reply = r\<rparr>"

definition one_job :: file_state where
  "one_job = Decoded (JObj [(''job_1'', task_info ''2030-01-01T00:00:00'' ''sendmessage'' ''hi'' 123)])"

text \<open>A queue with one job after the clock of the setting and one before it.\<close>

definition two_jobs :: "(string \<times> json) list" where
  "two_jobs =
     [(''job_1'', task_info ''2030-01-01T00:00:00'' ''sendmessage'' ''hi'' 123),
      (''job_0'', task_info ''2020-01-01T00:00:00'' ''sendmessage'' ''old'' 123)]"


text \<open>A world in which the job id of a send to group 123 at noon on 20 September 2025 is
  registered already.\<close>

definition busy_world :: world where
  "busy_world =
     \<lparr>queue_file = Missing,
      scheduler = [''job_2025-09-20T12:00:00_123'' \<mapsto>
                     \<lparr>run_date = now demo_env, args = []\<rparr>],
      trace = []\<rparr>"

section \<open>Properties\<close>

subsection \<open>The content parser on plain text\<close>

lemma prefix_replace_nl:
  "prefix p (replace_nl s) \<Longrightarrow> CHR 0x0A \<notin> set p \<Longrightarrow> prefix p s"
proof (induction s arbitrary: p rule: replace_nl.induct)
  case (1 a b cs)
  show ?case
  proof (cases "a = CHR 0x5C \<and> b = CHR ''n''")
    case True
    with 1(3,4) have "p = []" by (cases p) auto
    then show ?thesis by simp
  next
    case False
    show ?thesis
    proof (cases p)
      case Nil
      then show ?thesis by simp
    next
      case (Cons x xs)
      with False 1(3,4) have "x = a" "prefix xs (replace_nl (b # cs))" "CHR 0x0A \<notin> set xs"
        by auto
      with 1(2)[OF False] Cons show ?thesis by auto
    qed
  qed
qed simp_all

lemma scan_url_replace_nl:
  "scan_url (replace_nl s) \<noteq> None \<Longrightarrow> scan_url s \<noteq> None"
proof (induction s rule: replace_nl.induct)
  case (1 a b cs)
  show ?case
  proof (cases "a = CHR 0x5C \<and> b = CHR ''n''")
    case True
    with 1(3) show ?thesis by (simp add: image_close_def)
  next
    case False
    show ?thesis
    proof (cases "prefix image_close (a # b # cs)")
      case True
      then show ?thesis by simp
    next
      case nopre: False
      have "\<not> prefix image_close (replace_nl (a # b # cs))"
        using prefix_replace_nl[of image_close "a # b # cs"] nopre
        by (auto simp: image_close_def)
      with False 1(3) have "a \<noteq> CHR 0x0A" "scan_url (replace_nl (b # cs)) \<noteq> None"
        by (auto split: if_splits)
      with 1(2)[OF False] nopre show ?thesis by auto
    qed
  qed
qed simp_all

lemma replace_nl_Cons:
  "a \<noteq> CHR 0x5C \<Longrightarrow> replace_nl (a # r) = a # replace_nl r"
  by (cases r) simp_all

lemma match_tag_replace_nl:
  assumes m: "match_tag (replace_nl s) \<noteq> None"
  shows "match_tag s \<noteq> None"
proof (cases "prefix at_all_tag (replace_nl s)")
  case True
  then have "prefix at_all_tag s"
    by (rule prefix_replace_nl) (simp add: at_all_tag_def)
  then show ?thesis by (simp add: match_tag_def)
next
  case False
  with m have io: "prefix image_open (replace_nl s)"
    and su: "scan_url (drop (length image_open) (replace_nl s)) \<noteq> None"
    by (auto simp: match_tag_def image_url_def split: if_splits option.splits)
  from io have "prefix image_open s"
    by (rule prefix_replace_nl) (simp add: image_open_def)
  then obtain r where s: "s = image_open @ r" by (auto simp: prefix_def)
  have shape: "replace_nl (image_open @ r) = image_open @ replace_nl r"
    by (simp add: image_open_def replace_nl_Cons)
  from su s shape have "scan_url (replace_nl r) \<noteq> None" by simp
  then have "scan_url r \<noteq> None" by (rule scan_url_replace_nl)
  with s show ?thesis
    by (auto simp: match_tag_def image_url_def)
qed

lemma has_tag_replace_nl:
  "has_tag (replace_nl s) \<Longrightarrow> has_tag s"
proof (induction s rule: replace_nl.induct)
  case (1 a b cs)
  show ?case
  proof (cases "a = CHR 0x5C \<and> b = CHR ''n''")
    case True
    with 1(3) have "has_tag (replace_nl cs)"
      by (auto simp: match_tag_def image_url_def at_all_tag_def image_open_def)
    with 1(1)[OF True] show ?thesis by simp
  next
    case False
    show ?thesis
    proof (cases "match_tag (replace_nl (a # b # cs)) \<noteq> None")
      case True
      then have "match_tag (a # b # cs) \<noteq> None" by (rule match_tag_replace_nl)
      then show ?thesis by simp
    next
      case nomatch: False
      with False 1(3) have "has_tag (replace_nl (b # cs))" by auto
      with 1(2)[OF False] show ?thesis by simp
    qed
  qed
qed simp_all

lemma split_tags_no_tag:
  "\<not> has_tag s \<Longrightarrow> split_tags acc s = [acc @ s]"
  by (induction s arbitrary: acc) auto

lemma replace_nl_Nil_iff: "replace_nl s = [] \<longleftrightarrow> s = []"
  by (induction s rule: replace_nl.induct) auto

lemma build_message_plain:
  assumes "p \<noteq> []" and "\<not> has_tag p"
  shows "build_message [p] = [Text p]"
proof -
  from assms obtain c cs where p: "p = c # cs" by (cases p) auto
  with assms(2) have m: "match_tag p = None" by simp
  then have "\<not> prefix at_all_tag p" and iu: "image_url p = None"
    by (auto simp: match_tag_def split: if_splits option.splits)
  then have "p \<noteq> at_all_tag" by auto
  with iu assms(1) show ?thesis by simp
qed

text \<open>
  C5 as the claim states it fails on the empty content, which holds no tag and yields no
  segment at all: the loop skips empty parts.
\<close>

theorem parse_empty_counterexample:
  "\<not> has_tag [] \<and> parse_content_to_message [] \<noteq> [Text (replace_nl [])]
   \<and> parse_content_to_message [] = []"
  by (simp add: parse_content_to_message_def)

text \<open>
  C5 (amended): for every non-empty content string in which neither the at-all tag nor
  an image tag occurs, \<^verbatim>\<open>parse_content_to_message\<close> yields exactly one Text segment, whose
  text is the input with every escaped newline replaced by the line feed character.
\<close>

theorem parse_plain_text:
  assumes "content \<noteq> []" and "\<not> has_tag content"
  shows "parse_content_to_message content = [Text (replace_nl content)]"
proof -
  have nt: "\<not> has_tag (replace_nl content)"
    using assms(2) has_tag_replace_nl by blast
  have ne: "replace_nl content \<noteq> []"
    using assms(1) by (simp add: replace_nl_Nil_iff)
  have "split_tags [] (replace_nl content) = [replace_nl content]"
    using split_tags_no_tag[OF nt, of "[]"] by simp
  then show ?thesis
    using build_message_plain[OF ne nt] by (simp add: parse_content_to_message_def)
qed

theorem parse_plain_text_witness:
  "''hi'' @ [CHR 0x5C] @ ''nyou'' \<noteq> [] \<and> \<not> has_tag (''hi'' @ [CHR 0x5C] @ ''nyou'')
   \<and> parse_content_to_message (''hi'' @ [CHR 0x5C] @ ''nyou'')
       = [Text (''hi'' @ [CHR 0x0A] @ ''you'')]"
proof -
  have a: "''hi'' @ [CHR 0x5C] @ ''nyou'' \<noteq> []" by simp
  have b: "\<not> has_tag (''hi'' @ [CHR 0x5C] @ ''nyou'')"
    by (simp add: match_tag_def image_url_def at_all_tag_def image_open_def)
  show ?thesis using a b parse_plain_text[OF a b] by simp
qed

subsection \<open>The queue file\<close>

text \<open>
  C7: for every job id, every record and every prior state of the queue file,
  \<^verbatim>\<open>save_to_queue\<close> followed by a read of the file yields a mapping that holds the record
  under the job id, with the four fields timestamp, type, content and target_group as
  they were written.
\<close>

theorem save_then_load:
  "map_of (load_queue (save_to_queue job_id (task_info ts ty content target_group) f)) job_id
     = Some (JObj [(''timestamp'', JStr ts), (''type'', JStr ty),
                   (''content'', JStr content), (''target_group'', JInt target_group)])"
  by (simp add: save_to_queue_def task_info_def update_conv')

text \<open>
  C8: for every job id and every state of the queue file, a second \<^verbatim>\<open>remove_from_queue\<close>
  leaves the file as the first one left it.
\<close>

theorem remove_from_queue_twice:
  "remove_from_queue job_id (remove_from_queue job_id f) = remove_from_queue job_id f"
  by (induction job_id f rule: remove_from_queue.induct) (auto simp: delete_notin_dom)

subsection \<open>Effects of the building blocks\<close>

lemma emit_simps:
  "trace (emit e w) = trace w @ [e]"
  "queue_file (emit e w) = queue_file w"
  "scheduler (emit e w) = scheduler w"
  by (simp_all add: emit_def)

lemma say_simps:
  "trace (say r w) = trace w @ [Reply r]"
  "queue_file (say r w) = queue_file w"
  "scheduler (say r w) = scheduler w"
  by (simp_all add: say_def emit_def)

lemma call_remove_simps:
  "trace (call_remove_from_queue j w) = trace w @ [RemoveFromQueue j]"
  "queue_file (call_remove_from_queue j w) = remove_from_queue j (queue_file w)"
  "scheduler (call_remove_from_queue j w) = scheduler w"
  by (simp_all add: call_remove_from_queue_def emit_def)

lemma call_save_simps:
  "trace (call_save_to_queue j i w) = trace w @ [SaveToQueue j]"
  "queue_file (call_save_to_queue j i w) = save_to_queue j i (queue_file w)"
  "scheduler (call_save_to_queue j i w) = scheduler w"
  by (simp_all add: call_save_to_queue_def emit_def)

lemma notify_admins_simps:
  "trace (notify_admins gs m w) = trace w @ map (\<lambda>g. SendGroupMsg g m) gs"
  "queue_file (notify_admins gs m w) = queue_file w"
  "scheduler (notify_admins gs m w) = scheduler w"
  by (induction gs arbitrary: w) (simp_all add: emit_simps)

lemma new_effects_append: "trace w' = trace w @ es \<Longrightarrow> new_effects w w' = es"
  by (simp add: new_effects_def)

lemma count_notices:
  "count_list (map (\<lambda>g. SendGroupMsg g m) gs) (RemoveFromQueue j) = 0"
  "filter is_registration (map (\<lambda>g. SendGroupMsg g m) gs) = []"
  "filter is_delivery (map (\<lambda>g. SendGroupMsg g (Notice t)) gs) = []"
  by (induction gs) simp_all

subsection \<open>Execution of a due job\<close>

text \<open>
  C1 (amended): for every job executed by \<^verbatim>\<open>execute_scheduled_task\<close> while a bot is
  connected, the job is removed from the queue file exactly once when the delivery succeeds
  or there is nothing to send, whatever becomes of the confirmations to the admin groups;
  when the delivery fails the job record is left in the file. In every case the delivery
  is attempted at most once, nothing is registered with the scheduler or written to the
  file as a new record, and the scheduler is left as it was. Without a connected bot the
  task does nothing.
\<close>

theorem execute_removes_after_delivery:
  fixes env command_type content target_group job_id w
  defines "w' \<equiv> execute_scheduled_task env command_type content target_group job_id w"
  shows "trace w' = trace w @ new_effects w w'
       \<and> count_list (new_effects w w') (RemoveFromQueue job_id)
           = (if bot_connected env \<and> \<not> delivery_failed env command_type content target_group
              then 1 else 0)
       \<and> queue_file w'
           = (if bot_connected env \<and> \<not> delivery_failed env command_type content target_group
              then remove_from_queue job_id (queue_file w) else queue_file w)
       \<and> length (filter is_delivery (new_effects w w')) \<le> 1
       \<and> filter is_registration (new_effects w w') = []
       \<and> scheduler w' = scheduler w
       \<and> (\<not> bot_connected env \<longrightarrow> w' = w)"
proof -
  consider (nobot) "\<not> bot_connected env"
    | (nothing) "bot_connected env" "message_to_send env command_type content = None
        \<or> message_to_send env command_type content = Some []"
    | (failed) m e where "bot_connected env" "message_to_send env command_type content = Some m"
        "m \<noteq> []" "send_group_msg env target_group (Content m) = Inl e"
    | (sent) m i where "bot_connected env" "message_to_send env command_type content = Some m"
        "m \<noteq> []" "send_group_msg env target_group (Content m) = Inr i"
    by (cases "message_to_send env command_type content";
        cases "send_group_msg env target_group (Content (the (message_to_send env command_type content)))")
       auto
  then show ?thesis
  proof cases
    case nobot
    then show ?thesis
      by (simp add: w'_def execute_scheduled_task_def new_effects_def)
  next
    case nothing
    note n = this
    then have t: "trace w' = trace w @ [RemoveFromQueue job_id]"
      and q: "queue_file w' = remove_from_queue job_id (queue_file w)"
      and s: "scheduler w' = scheduler w"
      and d: "\<not> delivery_failed env command_type content target_group"
      by (auto simp: w'_def execute_scheduled_task_def call_remove_simps delivery_failed_def)
    from new_effects_append[OF t] t q s d n(1) show ?thesis by simp
  next
    case failed
    note n = this
    then have t: "trace w' = trace w @ [SendGroupMsg target_group (Content m)]"
      and q: "queue_file w' = queue_file w"
      and s: "scheduler w' = scheduler w"
      and d: "delivery_failed env command_type content target_group"
      by (auto simp: w'_def execute_scheduled_task_def emit_simps delivery_failed_def)
    from new_effects_append[OF t] t q s d n(1) show ?thesis by simp
  next
    case sent
    note n = this
    then have t: "trace w' = trace w @ (SendGroupMsg target_group (Content m)
          # map (\<lambda>g. SendGroupMsg g (Notice (confirmation_message target_group i)))
              (admin_groups env) @ [RemoveFromQueue job_id])"
      and q: "queue_file w' = remove_from_queue job_id (queue_file w)"
      and s: "scheduler w' = scheduler w"
      and d: "\<not> delivery_failed env command_type content target_group"
      by (auto simp: w'_def execute_scheduled_task_def emit_simps call_remove_simps
            notify_admins_simps delivery_failed_def)
    from new_effects_append[OF t] t q s d n(1) show ?thesis
      by (simp add: count_notices)
  qed
qed


theorem execute_removes_after_delivery_witness:
  "count_list (new_effects (demo_world one_job)
       (execute_scheduled_task demo_env ''sendmessage'' ''hi'' 123 ''job_1'' (demo_world one_job)))
     (RemoveFromQueue ''job_1'') = 1
   \<and> queue_file (execute_scheduled_task demo_env ''sendmessage'' ''hi'' 123 ''job_1''
         (demo_world one_job)) = Decoded (JObj [])"
proof -
  have ok: "bot_connected demo_env \<and> \<not> delivery_failed demo_env ''sendmessage'' ''hi'' 123"
    by code_simp
  have r: "remove_from_queue ''job_1'' (queue_file (demo_world one_job)) = Decoded (JObj [])"
    by code_simp
  show ?thesis
    using execute_removes_after_delivery
            [of demo_env "''sendmessage''" "''hi''" 123 "''job_1''" "demo_world one_job"] ok r
    by simp
qed

text \<open>
  C1 as the claim states it fails when the transport refuses the message: the removal
  stands inside the \<^verbatim>\<open>try\<close>, after the send, so the record stays in the file and
  \<^verbatim>\<open>remove_from_queue\<close> is never called.
\<close>

theorem execute_failed_delivery_counterexample:
  "bot_connected offline_env
   \<and> delivery_failed offline_env ''sendmessage'' ''hi'' 123
   \<and> map_of (load_queue (queue_file
         (execute_scheduled_task offline_env ''sendmessage'' ''hi'' 123 ''job_1''
            (demo_world one_job)))) ''job_1'' \<noteq> None
   \<and> count_list (trace
         (execute_scheduled_task offline_env ''sendmessage'' ''hi'' 123 ''job_1''
            (demo_world one_job))) (RemoveFromQueue ''job_1'') = 0"
  by code_simp

subsection \<open>Cancelling a job\<close>

lemma handle_message_Next:
  "command_checks env event = Next (ct, ts, c, tgs, tg) \<Longrightarrow>
   handle_message env event w = command_delegation env event ct ts c tgs tg w"
  by (simp add: handle_message_def)

text \<open>
  C2 (amended): for every cancel request with the timestamp field \<^verbatim>\<open>-1\<close> that passes
  the checks of the handler, if the scheduler has no registration for the job id then
  \<^verbatim>\<open>remove_job\<close> raises, the user is told that the cancellation failed, and the queue
  file is left unchanged; the record is removed from the file only after \<^verbatim>\<open>remove_job\<close>
  has succeeded.
\<close>

theorem cancel_needs_registration:
  fixes env event w job_id
  defines "w' \<equiv> snd (handle_message env event w)"
  assumes "command_checks env event
             = Next (''cancelmessage'', ''-1'', job_id, target_group_str, target_group)"
  shows "fst (handle_message env event w) = None
       \<and> (if scheduler w job_id = None
          then new_effects w w' = [RemoveJob job_id, Reply (FailedToCancel job_id JobLookupError)]
             \<and> queue_file w' = queue_file w \<and> scheduler w' = scheduler w
          else new_effects w w'
               = [RemoveJob job_id, RemoveFromQueue job_id, Reply (JobCanceled job_id)]
             \<and> queue_file w' = remove_from_queue job_id (queue_file w)
             \<and> scheduler w' = (scheduler w)(job_id := None))"
  using assms(2)
  by (simp add: w'_def handle_message_Next command_delegation_def handle_cancelmessage_def
        remove_job_def new_effects_def say_simps emit_simps call_remove_simps)

theorem cancel_needs_registration_witness:
  "command_checks demo_env (demo_event ''[cancelmessage][-1][job_1][0]'' None)
     = Next (''cancelmessage'', ''-1'', ''job_1'', ''0'', 0)
   \<and> queue_file (snd (handle_message demo_env (demo_event ''[cancelmessage][-1][job_1][0]'' None)
         (demo_world one_job))) = one_job"
proof -
  have c: "command_checks demo_env (demo_event ''[cancelmessage][-1][job_1][0]'' None)
     = Next (''cancelmessage'', ''-1'', ''job_1'', ''0'', 0)"
    by code_simp
  show ?thesis
    using c cancel_needs_registration[OF c, of "demo_world one_job"]
    by (simp add: demo_world_def)
qed

text \<open>
  C2 as the claim states it fails for a job that is in the file and not registered: the
  exception of \<^verbatim>\<open>remove_job\<close> skips \<^verbatim>\<open>remove_from_queue\<close>, and the record stays.
\<close>

theorem cancel_unregistered_counterexample:
  "command_checks demo_env (demo_event ''[cancelmessage][-1][job_1][0]'' None)
     = Next (''cancelmessage'', ''-1'', ''job_1'', ''0'', 0)
   \<and> scheduler (demo_world one_job) ''job_1'' = None
   \<and> map_of (load_queue (queue_file (snd (handle_message demo_env
         (demo_event ''[cancelmessage][-1][job_1][0]'' None) (demo_world one_job))))) ''job_1''
       \<noteq> None
   \<and> RemoveFromQueue ''job_1'' \<notin> set (trace (snd (handle_message demo_env
         (demo_event ''[cancelmessage][-1][job_1][0]'' None) (demo_world one_job))))"
  by code_simp

subsection \<open>An unusable queue file\<close>

text \<open>
  C3 as the claim states it fails in the listing command: on a file that does not decode
  the handler answers the chat with the text "Could not read the schedule queue.".
\<close>

theorem listing_reports_undecodable_counterexample:
  "unusable Undecodable
   \<and> command_checks demo_env (demo_event ''[schedulemessage][][][]'' None)
       = Next (''schedulemessage'', [], [], [], 0)
   \<and> trace (snd (handle_message demo_env (demo_event ''[schedulemessage][][][]'' None)
         (demo_world Undecodable))) = [Reply CouldNotReadQueue]"
  by code_simp

text \<open>
  C3 (amended): for every state of the queue file that is missing, does not decode, or
  decodes to something other than an object, the reads made by \<^verbatim>\<open>on_startup\<close>,
  \<^verbatim>\<open>save_to_queue\<close> and \<^verbatim>\<open>remove_from_queue\<close> recover by treating the store as empty:
  startup registers nothing and raises nothing, a save writes a store that holds the new
  job alone, a removal changes nothing. The listing command answers a missing file with
  the empty-queue reply and reports a file that does not decode to the chat user with
  the could-not-read reply.
\<close>

theorem unusable_file_is_empty_store:
  assumes "unusable f"
  shows "load_queue f = []
       \<and> on_startup env (w\<lparr>queue_file := f\<rparr>) = (None, w\<lparr>queue_file := f\<rparr>)
       \<and> save_to_queue job_id info f = Decoded (JObj [(job_id, info)])
       \<and> remove_from_queue job_id f = f
       \<and> (f = Missing
            \<and> command_checks env event
                = Next (''schedulemessage'', timestamp_str, content, target_group_str,
                        target_group) \<longrightarrow>
            handle_message env event (w\<lparr>queue_file := f\<rparr>)
              = (None, say QueueEmpty (w\<lparr>queue_file := f\<rparr>)))
       \<and> (f = Undecodable
            \<and> command_checks env event
                = Next (''schedulemessage'', timestamp_str, content, target_group_str,
                        target_group) \<longrightarrow>
            handle_message env event (w\<lparr>queue_file := f\<rparr>)
              = (None, say CouldNotReadQueue (w\<lparr>queue_file := f\<rparr>)))"
proof (cases f)
  case Missing
  then show ?thesis
    by (simp add: on_startup_def save_to_queue_def handle_message_Next command_delegation_def
          handle_schedulemessage_def)
next
  case Undecodable
  then show ?thesis
    by (simp add: on_startup_def save_to_queue_def handle_message_Next command_delegation_def
          handle_schedulemessage_def)
next
  case (Decoded j)
  with assms(1) show ?thesis
    by (cases j) (simp_all add: on_startup_def save_to_queue_def)
qed

theorem unusable_file_is_empty_store_witness:
  "unusable (Decoded (JArr [JInt 1]))
   \<and> load_queue (Decoded (JArr [JInt 1])) = []
   \<and> save_to_queue ''job_1'' JNull (Decoded (JArr [JInt 1])) = Decoded (JObj [(''job_1'', JNull)])
   \<and> remove_from_queue ''job_1'' (Decoded (JArr [JInt 1])) = Decoded (JArr [JInt 1])
   \<and> unusable Undecodable
   \<and> command_checks demo_env (demo_event ''[schedulemessage][][][]'' None)
       = Next (''schedulemessage'', [], [], [], 0)
   \<and> on_startup demo_env (demo_world Undecodable) = (None, demo_world Undecodable)
   \<and> handle_message demo_env (demo_event ''[schedulemessage][][][]'' None)
         (demo_world Undecodable)
       = (None, say CouldNotReadQueue (demo_world Undecodable))"
proof -
  have u: "unusable (Decoded (JArr [JInt 1]))" by simp
  have v: "unusable Undecodable" by simp
  have c: "command_checks demo_env (demo_event ''[schedulemessage][][][]'' None)
       = Next (''schedulemessage'', [], [], [], 0)"
    by code_simp
  have w: "(demo_world Undecodable)\<lparr>queue_file := Undecodable\<rparr> = demo_world Undecodable"
    by (simp add: demo_world_def)
  show ?thesis
    using u v c w
      unusable_file_is_empty_store[OF u, where job_id = "''job_1''" and info = JNull]
      unusable_file_is_empty_store[OF v, where env = demo_env
        and w = "demo_world Undecodable"
        and event = "demo_event ''[schedulemessage][][][]'' None"
        and timestamp_str = "[]" and content = "[]" and target_group_str = "[]"
        and target_group = 0]
    by simp
qed

subsection \<open>Timestamp fields that are not numbers\<close>

text \<open>
  C10 as the claim states it fails for a \<^verbatim>\<open>forwardmessage\<close> command that is not issued as
  a reply: the handler rejects it with a reply before it looks at the timestamp field.
\<close>

theorem forward_without_reply_counterexample:
  "command_checks demo_env (demo_event ''[forwardmessage][abc][][123]'' None)
     = Next (''forwardmessage'', ''abc'', [], ''123'', 123)
   \<and> ''abc'' \<noteq> ''0'' \<and> \<not> isdigit ''abc''
   \<and> trace (snd (handle_message demo_env (demo_event ''[forwardmessage][abc][][123]'' None)
         (demo_world one_job))) = [Reply ForwardNeedsReply]"
  by code_simp

text \<open>
  C10 (amended): for every \<^verbatim>\<open>sendmessage\<close> command, and every \<^verbatim>\<open>forwardmessage\<close>
  command issued as a reply to a message, that passes the checks of the handler and whose
  timestamp field is neither \<^verbatim>\<open>0\<close> nor made of digits only, the handler sends no reply,
  schedules nothing and leaves the queue file unchanged: the world is left as it was. A
  \<^verbatim>\<open>forwardmessage\<close> command that is not a reply gets the rejection that asks for one.
\<close>

theorem non_numeric_timestamp_is_ignored:
  assumes "command_checks env event
             = Next (command_type, timestamp_str, content, target_group_str, target_group)"
    and "timestamp_str \<noteq> ''0''" and "\<not> isdigit timestamp_str"
  shows "(command_type = ''sendmessage'' \<longrightarrow> handle_message env event w = (None, w))
       \<and> (command_type = ''forwardmessage'' \<longrightarrow>
            handle_message env event w
              = (None, (case reply event of None \<Rightarrow> say ForwardNeedsReply w | Some r \<Rightarrow> w)))"
  using assms
  by (auto simp: handle_message_Next command_delegation_def handle_sendmessage_def
        handle_forwardmessage_def split: option.splits)

theorem non_numeric_timestamp_is_ignored_witness:
  "command_checks demo_env (demo_event ''[sendmessage][-1][hi][123]'' None)
     = Next (''sendmessage'', ''-1'', ''hi'', ''123'', 123)
   \<and> ''-1'' \<noteq> ''0'' \<and> \<not> isdigit ''-1''
   \<and> handle_message demo_env (demo_event ''[sendmessage][-1][hi][123]'' None) (demo_world one_job)
       = (None, demo_world one_job)"
proof -
  have c: "command_checks demo_env (demo_event ''[sendmessage][-1][hi][123]'' None)
     = Next (''sendmessage'', ''-1'', ''hi'', ''123'', 123)"
    by code_simp
  have z: "''-1'' \<noteq> ''0''" by simp
  have d: "\<not> isdigit ''-1''" by code_simp
  show ?thesis
    using c z d non_numeric_timestamp_is_ignored[OF c z d, of "demo_world one_job"]
    by simp
qed

subsection \<open>Scheduling commands\<close>

lemma strptime_raises_ValueError: "strptime s f = Inl e \<Longrightarrow> e = ValueError"
  by (auto simp: strptime_def split: if_splits option.splits)

lemma day_field_digits:
  "day_field s = Some d \<Longrightarrow> list_all is_digit s \<Longrightarrow> d = int_of_digits s"
  by (auto simp: day_field_def split: list.splits if_splits)

lemma num_field_Some: "num_field s = Some n \<Longrightarrow> n = int_of_digits s"
  by (auto simp: num_field_def split: if_splits)

lemma list_all_take_drop: "list_all P s \<Longrightarrow> list_all P (take n (drop m s))"
  by (auto simp: list_all_iff dest: in_set_takeD in_set_dropD)

lemma strptime_fields:
  assumes "strptime s f = Inr d" and "list_all is_digit s"
  shows "dt_fields d =
           [int_of_digits (take 4 s), int_of_digits (take 2 (drop 4 s)),
            int_of_digits (take 2 (drop 6 s)), int_of_digits (take 2 (drop 8 s)),
            int_of_digits (take 2 (drop 10 s)),
            (case f of YmdHM \<Rightarrow> 0 | YmdHMS \<Rightarrow> int_of_digits (take 2 (drop 12 s))), 0]"
proof -
  have dd: "list_all is_digit (take 2 (drop 6 s))"
    using assms(2) by (rule list_all_take_drop)
  from assms(1) obtain y mo dy h mi sec where
    f: "num_field (take 4 s) = Some y" "num_field (take 2 (drop 4 s)) = Some mo"
       "day_field (take 2 (drop 6 s)) = Some dy" "num_field (take 2 (drop 8 s)) = Some h"
       "num_field (take 2 (drop 10 s)) = Some mi"
       "(case f of YmdHM \<Rightarrow> Some 0 | YmdHMS \<Rightarrow> num_field (take 2 (drop 12 s))) = Some sec"
    and d: "d = \<lparr>year = y, month = mo, day = dy, hour = h, minute = mi, second = sec,
                 microsecond = 0\<rparr>"
    by (auto simp: strptime_def split: if_splits option.splits)
  from f(6) have "sec = (case f of YmdHM \<Rightarrow> 0 | YmdHMS \<Rightarrow> int_of_digits (take 2 (drop 12 s)))"
    by (cases f) (auto dest: num_field_Some)
  with f d day_field_digits[OF f(3) dd] show ?thesis
    by (auto simp: dt_fields_def dest: num_field_Some)
qed

text \<open>
  C6: for every \<^verbatim>\<open>sendmessage\<close> command that passes the checks of the handler and whose
  timestamp field is made of digits only and is not \<^verbatim>\<open>0\<close>: a field of length 12 is
  parsed with the format year, month, day, hour, minute, and one of length 14 with the
  format that adds the seconds, each field being the number its digits spell, and the
  scheduling goes on with that time (the format error is the reply when the digits spell
  no date, and also when \<^verbatim>\<open>send_time.timestamp()\<close> raises \<^verbatim>\<open>ValueError\<close> on the parsed
  time); for any other length the handler answers with the timestamp format error and
  does nothing else.
\<close>

theorem sendmessage_timestamp_lengths:
  assumes "command_checks env event
             = Next (''sendmessage'', timestamp_str, content, target_group_str, target_group)"
    and "isdigit timestamp_str" and "timestamp_str \<noteq> ''0''"
  shows "(length timestamp_str = 12 \<longrightarrow>
            handle_message env event w
              = (None, (case strptime timestamp_str YmdHM of
                          Inl e \<Rightarrow> say InvalidTimestampFormat w
                        | Inr send_time \<Rightarrow>
                            schedule_at env SendMessage send_time content target_group w)))
       \<and> (length timestamp_str = 14 \<longrightarrow>
            handle_message env event w
              = (None, (case strptime timestamp_str YmdHMS of
                          Inl e \<Rightarrow> say InvalidTimestampFormat w
                        | Inr send_time \<Rightarrow>
                            schedule_at env SendMessage send_time content target_group w)))
       \<and> (length timestamp_str \<noteq> 12 \<and> length timestamp_str \<noteq> 14 \<longrightarrow>
            handle_message env event w
              = (None, w\<lparr>trace := trace w @ [Reply InvalidTimestampFormat]\<rparr>))
       \<and> (\<forall>d. strptime timestamp_str YmdHM = Inr d \<longrightarrow>
            dt_fields d =
              [int_of_digits (take 4 timestamp_str), int_of_digits (take 2 (drop 4 timestamp_str)),
               int_of_digits (take 2 (drop 6 timestamp_str)),
               int_of_digits (take 2 (drop 8 timestamp_str)),
               int_of_digits (take 2 (drop 10 timestamp_str)), 0, 0])
       \<and> (\<forall>d. strptime timestamp_str YmdHMS = Inr d \<longrightarrow>
            dt_fields d =
              [int_of_digits (take 4 timestamp_str), int_of_digits (take 2 (drop 4 timestamp_str)),
               int_of_digits (take 2 (drop 6 timestamp_str)),
               int_of_digits (take 2 (drop 8 timestamp_str)),
               int_of_digits (take 2 (drop 10 timestamp_str)),
               int_of_digits (take 2 (drop 12 timestamp_str)), 0])"
proof -
  have h: "handle_message env event w
             = (None, schedule_command env SendMessage timestamp_str content target_group w)"
    using assms
    by (simp add: handle_message_Next command_delegation_def handle_sendmessage_def)
  have digits: "list_all is_digit timestamp_str"
    using assms(2) by (simp add: isdigit_def)
  have a: "length timestamp_str = 12 \<longrightarrow>
            handle_message env event w
              = (None, (case strptime timestamp_str YmdHM of
                          Inl e \<Rightarrow> say InvalidTimestampFormat w
                        | Inr send_time \<Rightarrow>
                            schedule_at env SendMessage send_time content target_group w))"
    by (auto simp: h schedule_command_def parse_timestamp_def schedule_failed_def
          split: sum.splits dest: strptime_raises_ValueError)
  have b: "length timestamp_str = 14 \<longrightarrow>
            handle_message env event w
              = (None, (case strptime timestamp_str YmdHMS of
                          Inl e \<Rightarrow> say InvalidTimestampFormat w
                        | Inr send_time \<Rightarrow>
                            schedule_at env SendMessage send_time content target_group w))"
    by (auto simp: h schedule_command_def parse_timestamp_def schedule_failed_def
          split: sum.splits dest: strptime_raises_ValueError)
  have c: "length timestamp_str \<noteq> 12 \<and> length timestamp_str \<noteq> 14 \<longrightarrow>
            handle_message env event w
              = (None, w\<lparr>trace := trace w @ [Reply InvalidTimestampFormat]\<rparr>)"
    by (simp add: h schedule_command_def parse_timestamp_def schedule_failed_def say_def
          emit_def)
  from a b c strptime_fields[OF _ digits, of YmdHM] strptime_fields[OF _ digits, of YmdHMS]
  show ?thesis by simp
qed

theorem sendmessage_timestamp_lengths_witness:
  "command_checks demo_env (demo_event ''[sendmessage][202509201200][hi][123]'' None)
     = Next (''sendmessage'', ''202509201200'', ''hi'', ''123'', 123)
   \<and> isdigit ''202509201200'' \<and> ''202509201200'' \<noteq> ''0''
   \<and> strptime ''202509201200'' YmdHM
       = Inr \<lparr>year = 2025, month = 9, day = 20, hour = 12, minute = 0, second = 0,
              microsecond = 0\<rparr>
   \<and> handle_message demo_env (demo_event ''[sendmessage][202509201200][hi][123]'' None)
         (demo_world Missing)
       = (None, schedule_at demo_env SendMessage
                  \<lparr>year = 2025, month = 9, day = 20, hour = 12, minute = 0, second = 0,
                    microsecond = 0\<rparr> ''hi'' 123 (demo_world Missing))"
proof -
  have c: "command_checks demo_env (demo_event ''[sendmessage][202509201200][hi][123]'' None)
     = Next (''sendmessage'', ''202509201200'', ''hi'', ''123'', 123)"
    by code_simp
  have d: "isdigit ''202509201200''" by code_simp
  have z: "''202509201200'' \<noteq> ''0''" by simp
  have p: "strptime ''202509201200'' YmdHM
       = Inr \<lparr>year = 2025, month = 9, day = 20, hour = 12, minute = 0, second = 0,
              microsecond = 0\<rparr>"
    by code_simp
  show ?thesis
    using c d z p sendmessage_timestamp_lengths[OF c d z, of "demo_world Missing"]
    by simp
qed

lemma schedule_at_outcome:
  "scheduled_outcome env k send_time body target_group w
     (schedule_at env k send_time body target_group w)"
  by (simp add: scheduled_outcome_def schedule_at_def add_job_def schedule_failed_def
        new_effects_def say_simps call_save_simps emit_simps split: sum.splits)

lemma parse_timestamp_not_zero: "parse_timestamp ts = Inr d \<Longrightarrow> ts \<noteq> ''0''"
  by (auto simp: parse_timestamp_def)

text \<open>
  C9: for every \<^verbatim>\<open>sendmessage\<close> or \<^verbatim>\<open>forwardmessage\<close> command that passes the checks of
  the handler with a timestamp field of 12 or 14 digits that spells a date, the scheduler
  registration is attempted before the record is written to the queue file, and when the
  registration raises (the job id is registered already) the file is left unchanged and
  the failure is the reply. The record is written only after a registration that
  succeeded: when \<^verbatim>\<open>send_time.timestamp()\<close> raises while the job id is formed, neither
  step is taken and the reply is that of the handler that catches the exception; a
  \<^verbatim>\<open>forwardmessage\<close> command that is not a reply is rejected before either step. Both
  leave the scheduler and the file as they were.
\<close>

theorem registration_precedes_persistence:
  fixes env event w
  defines "w' \<equiv> snd (handle_message env event w)"
  assumes "command_checks env event
             = Next (command_type, timestamp_str, content, target_group_str, target_group)"
    and "isdigit timestamp_str" and "parse_timestamp timestamp_str = Inr send_time"
  shows "(command_type = ''sendmessage'' \<longrightarrow>
            scheduled_outcome env SendMessage send_time content target_group w w')
       \<and> (command_type = ''forwardmessage'' \<longrightarrow>
            (case reply event of
               None \<Rightarrow>
                 new_effects w w' = [Reply ForwardNeedsReply]
                 \<and> queue_file w' = queue_file w \<and> scheduler w' = scheduler w
             | Some (replied_id, forward_message) \<Rightarrow>
                 scheduled_outcome env ForwardMessage send_time
                   (str_of_message env forward_message) target_group w w'))"
proof -
  have nz: "timestamp_str \<noteq> ''0''"
    using assms(4) by (rule parse_timestamp_not_zero)
  have s: "command_type = ''sendmessage'' \<longrightarrow>
             w' = schedule_at env SendMessage send_time content target_group w"
    using assms(2,3,4) nz
    by (simp add: w'_def handle_message_Next command_delegation_def handle_sendmessage_def
          schedule_command_def)
  have f: "command_type = ''forwardmessage'' \<longrightarrow>
             w' = (case reply event of
                     None \<Rightarrow> say ForwardNeedsReply w
                   | Some (replied_id, forward_message) \<Rightarrow>
                       schedule_at env ForwardMessage send_time
                         (str_of_message env forward_message) target_group w)"
    using assms(2,3,4) nz
    by (simp add: w'_def handle_message_Next command_delegation_def handle_forwardmessage_def
          schedule_command_def split: option.splits)
  from s f show ?thesis
    by (auto simp: schedule_at_outcome new_effects_def say_simps split: option.splits)
qed

theorem registration_precedes_persistence_witness:
  "command_checks demo_env (demo_event ''[sendmessage][202509201200][hi][123]'' None)
     = Next (''sendmessage'', ''202509201200'', ''hi'', ''123'', 123)
   \<and> isdigit ''202509201200''
   \<and> parse_timestamp ''202509201200''
       = Inr \<lparr>year = 2025, month = 9, day = 20, hour = 12, minute = 0, second = 0,
              microsecond = 0\<rparr>
   \<and> job_id_of demo_env SendMessage
        \<lparr>year = 2025, month = 9, day = 20, hour = 12, minute = 0, second = 0, microsecond = 0\<rparr>
        123 = Inr ''job_2025-09-20T12:00:00_123''
   \<and> new_effects (demo_world Missing) (snd (handle_message demo_env
         (demo_event ''[sendmessage][202509201200][hi][123]'' None) (demo_world Missing)))
       = [AddJob ''job_2025-09-20T12:00:00_123'', SaveToQueue ''job_2025-09-20T12:00:00_123'',
          Reply (Scheduled SendMessage
                   \<lparr>year = 2025, month = 9, day = 20, hour = 12, minute = 0, second = 0,
                     microsecond = 0\<rparr> 123 ''job_2025-09-20T12:00:00_123'')]
   \<and> scheduler busy_world ''job_2025-09-20T12:00:00_123'' \<noteq> None
   \<and> queue_file (snd (handle_message demo_env
         (demo_event ''[sendmessage][202509201200][hi][123]'' None) busy_world)) = Missing
   \<and> new_effects busy_world (snd (handle_message demo_env
         (demo_event ''[sendmessage][202509201200][hi][123]'' None) busy_world))
       = [AddJob ''job_2025-09-20T12:00:00_123'',
          Reply (FailedToSchedule SendMessage ConflictingIdError)]"
proof -
  have c: "command_checks demo_env (demo_event ''[sendmessage][202509201200][hi][123]'' None)
     = Next (''sendmessage'', ''202509201200'', ''hi'', ''123'', 123)"
    by code_simp
  have d: "isdigit ''202509201200''" by code_simp
  have p: "parse_timestamp ''202509201200''
       = Inr \<lparr>year = 2025, month = 9, day = 20, hour = 12, minute = 0, second = 0,
              microsecond = 0\<rparr>"
    by code_simp
  have j: "job_id_of demo_env SendMessage
             \<lparr>year = 2025, month = 9, day = 20, hour = 12, minute = 0, second = 0,
               microsecond = 0\<rparr> 123 = Inr ''job_2025-09-20T12:00:00_123''"
    by code_simp
  have b: "scheduler busy_world ''job_2025-09-20T12:00:00_123'' \<noteq> None"
    by (simp add: busy_world_def)
  have q: "queue_file busy_world = Missing"
    by (simp add: busy_world_def)
  have e: "scheduler (demo_world Missing) ''job_2025-09-20T12:00:00_123'' = None"
    by (simp add: demo_world_def)
  show ?thesis
    using c d p b q e registration_precedes_persistence[OF c d p, of "demo_world Missing"]
      registration_precedes_persistence[OF c d p, of busy_world]
    by (simp add: scheduled_outcome_def j)
qed

text \<open>The same command with a timestamp on the first day of year 1, where
  \<^verbatim>\<open>timestamp()\<close> raises \<^verbatim>\<open>ValueError\<close> in the time zone of the setting: no registration
  is attempted, nothing is written, and the reply is the format error.\<close>

lemma timestamp_raises_example:
  "parse_timestamp ''000101010000''
     = Inr \<lparr>year = 1, month = 1, day = 1, hour = 0, minute = 0, second = 0, microsecond = 0\<rparr>
   \<and> trace (snd (handle_message demo_env
         (demo_event ''[sendmessage][000101010000][hi][123]'' None) (demo_world Missing)))
       = [Reply InvalidTimestampFormat]
   \<and> queue_file (snd (handle_message demo_env
         (demo_event ''[sendmessage][000101010000][hi][123]'' None) (demo_world Missing)))
       = Missing
   \<and> scheduler (snd (handle_message demo_env
         (demo_event ''[sendmessage][000101010000][hi][123]'' None) (demo_world Missing)))
         ''job_0001-01-01T00:00:00_123'' = None"
  by code_simp

subsection \<open>Startup\<close>









text \<open>Why the ids must not be registered yet: on an id that the scheduler holds already
  \<^verbatim>\<open>add_job\<close> raises, the exception leaves \<^verbatim>\<open>on_startup\<close>, and the scheduler keeps the
  registration it had instead of the stored arguments.\<close>

lemma startup_registered_id_example:
  "fst (on_startup demo_env
         ((demo_world (Decoded (JObj two_jobs)))
            \<lparr>scheduler := [''job_1'' \<mapsto> \<lparr>run_date = now demo_env, args = []\<rparr>]\<rparr>))
     = Some ConflictingIdError
   \<and> scheduler (snd (on_startup demo_env
         ((demo_world (Decoded (JObj two_jobs)))
            \<lparr>scheduler := [''job_1'' \<mapsto> \<lparr>run_date = now demo_env, args = []\<rparr>]\<rparr>)))
       ''job_1''
     = Some \<lparr>run_date = now demo_env, args = []\<rparr>"
  by code_simp

end
